theory Spec2Isabelle
  imports Complex_Main "HOL-Library.Char_ord" "HOL-Library.List_Lexorder"
begin

section \<open>Values, dictionaries and errors\<close>

text \<open>
  The rating engine of \<^verbatim>\<open>rating.py\<close> works on Python dictionaries from KPI keys to
  \<^verbatim>\<open>Optional[float]\<close>. The data layer (\<^verbatim>\<open>data.py\<close>, \<^verbatim>\<open>get_sector_peers_kpis\<close>) stores
  one more entry, the string \<^verbatim>\<open>"_ticker"\<close>, in every peer dictionary, so a dictionary
  value is \<^verbatim>\<open>None\<close>, a float or a string.

  Floats are modelled as real numbers: rounding errors of binary arithmetic, infinities
  and NaN are outside the model. The two places where float arithmetic raises are kept
  as error values: division by zero, and \<^verbatim>\<open>math.exp\<close> leaving the range of a double.
  The one property that the rounding of doubles decides is stated on a second model of the
  program, in double arithmetic.
\<close>

datatype pyval = PyNone | PyFloat real | PyStr string

datatype py_error = TypeError | ZeroDivisionError | OverflowError

type_synonym py_dict = "string \<Rightarrow> pyval option"

text \<open>\<^verbatim>\<open>d.get(k)\<close>: a missing key reads as \<^verbatim>\<open>None\<close>.\<close>

definition dict_get :: "py_dict \<Rightarrow> string \<Rightarrow> pyval" where
  "dict_get d k = (case d k of None \<Rightarrow> PyNone | Some v \<Rightarrow> v)"

text \<open>Float division \<^verbatim>\<open>a / b\<close> raises on a zero divisor.\<close>

definition py_truediv :: "real \<Rightarrow> real \<Rightarrow> py_error + real" where
  "py_truediv a b = (if b = 0 then Inl ZeroDivisionError else Inr (a / b))"

text \<open>
  The largest finite double. \<^verbatim>\<open>math.exp\<close> raises \<^verbatim>\<open>OverflowError\<close> when its result
  is beyond it.
\<close>

definition DBL_MAX :: real where
  "DBL_MAX = (2 ^ 53 - 1) * 2 ^ 971"

definition math_exp :: "real \<Rightarrow> py_error + real" where
  "math_exp x = (if exp x > DBL_MAX then Inl OverflowError else Inr (exp x))"

text \<open>
  \<^verbatim>\<open>round(x, ndigits)\<close> on a float rounds to the nearest multiple of \<open>10\<^sup>-\<^sup>n\<close>, a tie
  going to the even neighbour.
\<close>

definition round_half_even :: "real \<Rightarrow> int" where
  "round_half_even x =
     (let f = \<lfloor>x\<rfloor>; d = x - of_int f
      in if d < 1 / 2 then f
         else if 1 / 2 < d then f + 1
         else if even f then f else f + 1)"

definition py_round :: "real \<Rightarrow> nat \<Rightarrow> real" where
  "py_round x ndigits = of_int (round_half_even (x * 10 ^ ndigits)) / 10 ^ ndigits"


section \<open>The KPI catalog\<close>

record KPIConfig =
  key :: string
  display_name :: string
  weight :: real
  lower_is_better :: bool
  abs_best :: real
  abs_worst :: real
  format_as_pct :: bool
  format_decimals :: nat

definition KPI_CONFIGS :: "KPIConfig list" where
  "KPI_CONFIGS =
    [\<lparr>key = ''trailingPE'', display_name = ''P/E Ratio (TTM)'',
      weight = 15 / 100, lower_is_better = True,
      abs_best = 5, abs_worst = 60, format_as_pct = False, format_decimals = 2\<rparr>,
     \<lparr>key = ''forwardPE'', display_name = ''Forward P/E'',
      weight = 12 / 100, lower_is_better = True,
      abs_best = 5, abs_worst = 50, format_as_pct = False, format_decimals = 2\<rparr>,
     \<lparr>key = ''priceToBook'', display_name = ''P/B Ratio'',
      weight = 10 / 100, lower_is_better = True,
      abs_best = 1 / 2, abs_worst = 20, format_as_pct = False, format_decimals = 2\<rparr>,
     \<lparr>key = ''enterpriseToEbitda'', display_name = ''EV/EBITDA'',
      weight = 12 / 100, lower_is_better = True,
      abs_best = 3, abs_worst = 40, format_as_pct = False, format_decimals = 2\<rparr>,
     \<lparr>key = ''debtToEquity'', display_name = ''Debt/Equity'',
      weight = 10 / 100, lower_is_better = True,
      abs_best = 0, abs_worst = 300, format_as_pct = False, format_decimals = 2\<rparr>,
     \<lparr>key = ''returnOnEquity'', display_name = ''ROE'',
      weight = 12 / 100, lower_is_better = False,
      abs_best = 40 / 100, abs_worst = - (10 / 100), format_as_pct = True, format_decimals = 2\<rparr>,
     \<lparr>key = ''profitMargins'', display_name = ''Profit Margin'',
      weight = 10 / 100, lower_is_better = False,
      abs_best = 40 / 100, abs_worst = - (10 / 100), format_as_pct = True, format_decimals = 2\<rparr>,
     \<lparr>key = ''revenueGrowth'', display_name = ''Revenue Growth'',
      weight = 9 / 100, lower_is_better = False,
      abs_best = 50 / 100, abs_worst = - (20 / 100), format_as_pct = True, format_decimals = 2\<rparr>,
     \<lparr>key = ''currentRatio'', display_name = ''Current Ratio'',
      weight = 5 / 100, lower_is_better = False,
      abs_best = 3, abs_worst = 3 / 10, format_as_pct = False, format_decimals = 2\<rparr>,
     \<lparr>key = ''dividendYield'', display_name = ''Dividend Yield'',
      weight = 5 / 100, lower_is_better = False,
      abs_best = 6 / 100, abs_worst = 0, format_as_pct = True, format_decimals = 2\<rparr>]"

definition get_kpi_keys :: "string list" where
  "get_kpi_keys = map key KPI_CONFIGS"


section \<open>Sector averages\<close>

text \<open>
  \<^verbatim>\<open>[kpi[cfg.key] for kpi in all_kpis if kpi.get(cfg.key) is not None]\<close>: the subscript
  cannot raise \<^verbatim>\<open>KeyError\<close>, since the filter has found the key.
\<close>

definition present_values :: "py_dict list \<Rightarrow> string \<Rightarrow> pyval list" where
  "present_values all_kpis k =
     map (\<lambda>kpi. dict_get kpi k) (filter (\<lambda>kpi. dict_get kpi k \<noteq> PyNone) all_kpis)"

fun is_float :: "pyval \<Rightarrow> bool" where
  "is_float (PyFloat x) = True"
| "is_float v = False"

fun is_str :: "pyval \<Rightarrow> bool" where
  "is_str (PyStr s) = True"
| "is_str v = False"

fun float_of :: "pyval \<Rightarrow> real" where
  "float_of (PyFloat x) = x"
| "float_of v = 0"

fun str_of :: "pyval \<Rightarrow> string" where
  "str_of (PyStr s) = s"
| "str_of v = []"

text \<open>
  \<^verbatim>\<open>values.sort()\<close>: floats sort by value and strings by code point; a list holding
  both raises \<^verbatim>\<open>TypeError\<close> at the first comparison across the two types. The list never
  holds \<^verbatim>\<open>None\<close> here.
\<close>

definition py_sort :: "pyval list \<Rightarrow> py_error + pyval list" where
  "py_sort vs =
     (if list_all is_float vs then Inr (map PyFloat (sort (map float_of vs)))
      else if list_all is_str vs then Inr (map PyStr (sort (map str_of vs)))
      else Inl TypeError)"

text \<open>\<^verbatim>\<open>a + b\<close>: floats add, strings concatenate.\<close>

fun py_add :: "pyval \<Rightarrow> pyval \<Rightarrow> py_error + pyval" where
  "py_add (PyFloat a) (PyFloat b) = Inr (PyFloat (a + b))"
| "py_add (PyStr a) (PyStr b) = Inr (PyStr (a @ b))"
| "py_add v w = Inl TypeError"

text \<open>\<^verbatim>\<open>v / 2\<close>: only a float can be halved.\<close>

fun py_half :: "pyval \<Rightarrow> py_error + pyval" where
  "py_half (PyFloat a) = map_sum id PyFloat (py_truediv a 2)"
| "py_half v = Inl TypeError"

text \<open>The body of the \<^verbatim>\<open>if values:\<close> branch, for a non-empty list.\<close>

definition median_of :: "pyval list \<Rightarrow> py_error + pyval" where
  "median_of vs =
     (case py_sort vs of
        Inl e \<Rightarrow> Inl e
      | Inr vs_sorted \<Rightarrow>
          let mid = length vs_sorted div 2
          in if length vs_sorted mod 2 = 0
             then (case py_add (vs_sorted ! (mid - 1)) (vs_sorted ! mid) of
                     Inl e \<Rightarrow> Inl e
                   | Inr s \<Rightarrow> py_half s)
             else Inr (vs_sorted ! mid))"

text \<open>The loop \<^verbatim>\<open>for cfg in KPI_CONFIGS\<close> of \<^verbatim>\<open>compute_sector_averages\<close>.\<close>

fun averages_loop :: "KPIConfig list \<Rightarrow> py_dict list \<Rightarrow> py_dict \<Rightarrow> py_error + py_dict" where
  "averages_loop [] all_kpis averages = Inr averages"
| "averages_loop (cfg # cfgs) all_kpis averages =
     (let vs = present_values all_kpis (key cfg)
      in if vs \<noteq> []
         then (case median_of vs of
                 Inl e \<Rightarrow> Inl e
               | Inr m \<Rightarrow> averages_loop cfgs all_kpis (averages(key cfg \<mapsto> m)))
         else averages_loop cfgs all_kpis (averages(key cfg \<mapsto> PyNone)))"

definition compute_sector_averages :: "py_dict list \<Rightarrow> py_error + py_dict" where
  "compute_sector_averages all_kpis = averages_loop KPI_CONFIGS all_kpis Map.empty"

text \<open>
  \<^verbatim>\<open>kpis["_ticker"] = ticker\<close>, which \<^verbatim>\<open>get_sector_peers_kpis\<close> does to every peer
  dictionary before it is handed to \<^verbatim>\<open>compute_sector_averages\<close>.
\<close>

definition set_ticker :: "py_dict \<Rightarrow> string \<Rightarrow> py_dict" where
  "set_ticker kpis ticker = kpis(''_ticker'' \<mapsto> PyStr ticker)"


section \<open>Scoring\<close>

definition score_absolute :: "real \<Rightarrow> KPIConfig \<Rightarrow> py_error + real" where
  "score_absolute v cfg =
     (if lower_is_better cfg then
        (if v \<le> abs_best cfg then Inr 1
         else if v \<ge> abs_worst cfg then Inr 0
         else map_sum id (\<lambda>q. 1 - q) (py_truediv (v - abs_best cfg) (abs_worst cfg - abs_best cfg)))
      else
        (if v \<ge> abs_best cfg then Inr 1
         else if v \<le> abs_worst cfg then Inr 0
         else py_truediv (v - abs_worst cfg) (abs_best cfg - abs_worst cfg)))"

text \<open>
  \<^verbatim>\<open>_score_relative(value, sector_avg, cfg)\<close>. A string average passes the guard
  (\<^verbatim>\<open>"x" == 0\<close> is false) and fails at the subtraction.
\<close>

fun score_relative :: "real \<Rightarrow> pyval \<Rightarrow> KPIConfig \<Rightarrow> py_error + real" where
  "score_relative v PyNone cfg = Inr (1 / 2)"
| "score_relative v (PyStr s) cfg = Inl TypeError"
| "score_relative v (PyFloat sector_avg) cfg =
     (if sector_avg = 0 then Inr (1 / 2)
      else (case py_truediv (v - sector_avg) \<bar>sector_avg\<bar> of
              Inl e \<Rightarrow> Inl e
            | Inr pct_diff \<Rightarrow>
                (let pct_diff' = (if lower_is_better cfg then - pct_diff else pct_diff)
                 in (case math_exp (- 4 * pct_diff') of
                       Inl e \<Rightarrow> Inl e
                     | Inr ex \<Rightarrow>
                         (case py_truediv 1 (1 + ex) of
                            Inl e \<Rightarrow> Inl e
                          | Inr score \<Rightarrow> Inr (max 0 (min 1 score)))))))"

record kpi_score =
  absolute :: "real option"
  relative :: "real option"
  combined :: "real option"

record rating_acc =
  total_abs_weighted :: real
  total_rel_weighted :: real
  total_weight_used :: real
  kpi_scores_acc :: "string \<Rightarrow> kpi_score option"

record rating_result =
  overall_rating :: real
  absolute_score :: real
  relative_score :: real
  kpi_scores :: "string \<Rightarrow> kpi_score option"

text \<open>
  The loop \<^verbatim>\<open>for cfg in KPI_CONFIGS\<close> of \<^verbatim>\<open>calculate_rating\<close>, the four local
  variables it updates being the accumulator. A string as the stock's value fails at the
  first comparison of \<^verbatim>\<open>_score_absolute\<close>.
\<close>

fun rating_loop ::
  "KPIConfig list \<Rightarrow> py_dict \<Rightarrow> py_dict \<Rightarrow> real \<Rightarrow> real \<Rightarrow> rating_acc \<Rightarrow> py_error + rating_acc"
where
  "rating_loop [] stock_kpis sector_averages aw rw acc = Inr acc"
| "rating_loop (cfg # cfgs) stock_kpis sector_averages aw rw acc =
     (let avg = dict_get sector_averages (key cfg)
      in (case dict_get stock_kpis (key cfg) of
           PyNone \<Rightarrow>
             rating_loop cfgs stock_kpis sector_averages aw rw
               (acc\<lparr>kpi_scores_acc := (kpi_scores_acc acc)
                  (key cfg \<mapsto> \<lparr>absolute = None, relative = None, combined = None\<rparr>)\<rparr>)
         | PyStr s \<Rightarrow> Inl TypeError
         | PyFloat val \<Rightarrow>
             (case score_absolute val cfg of
                Inl e \<Rightarrow> Inl e
              | Inr abs_score \<Rightarrow>
                  (case (if avg \<noteq> PyNone then score_relative val avg cfg else Inr (1 / 2)) of
                     Inl e \<Rightarrow> Inl e
                   | Inr rel_score \<Rightarrow>
                       let comb = aw * abs_score + rw * rel_score
                       in rating_loop cfgs stock_kpis sector_averages aw rw
                            \<lparr>total_abs_weighted = total_abs_weighted acc + abs_score * weight cfg,
                             total_rel_weighted = total_rel_weighted acc + rel_score * weight cfg,
                             total_weight_used = total_weight_used acc + weight cfg,
                             kpi_scores_acc = (kpi_scores_acc acc)
                               (key cfg \<mapsto> \<lparr>absolute = Some (py_round abs_score 3),
                                              relative = Some (py_round rel_score 3),
                                              combined = Some (py_round comb 3)\<rparr>)\<rparr>))))"

definition init_acc :: rating_acc where
  "init_acc = \<lparr>total_abs_weighted = 0, total_rel_weighted = 0, total_weight_used = 0,
               kpi_scores_acc = Map.empty\<rparr>"

text \<open>The statements after the loop: renormalise, blend, map to 1..10, round.\<close>

definition finish_rating :: "real \<Rightarrow> real \<Rightarrow> rating_acc \<Rightarrow> py_error + rating_result" where
  "finish_rating aw rw acc =
     (case (if total_weight_used acc > 0
            then (case py_truediv (total_abs_weighted acc) (total_weight_used acc) of
                    Inl e \<Rightarrow> Inl e
                  | Inr a \<Rightarrow>
                      (case py_truediv (total_rel_weighted acc) (total_weight_used acc) of
                         Inl e \<Rightarrow> Inl e
                       | Inr r \<Rightarrow> Inr (a, r)))
            else Inr (total_abs_weighted acc, total_rel_weighted acc)) of
        Inl e \<Rightarrow> Inl e
      | Inr (a, r) \<Rightarrow>
          let overall_raw = aw * a + rw * r
          in Inr \<lparr>overall_rating = py_round (1 + overall_raw * 9) 1,
                  absolute_score = py_round (1 + a * 9) 1,
                  relative_score = py_round (1 + r * 9) 1,
                  kpi_scores = kpi_scores_acc acc\<rparr>)"

definition calculate_rating ::
  "py_dict \<Rightarrow> py_dict \<Rightarrow> real \<Rightarrow> real \<Rightarrow> py_error + rating_result"
where
  "calculate_rating stock_kpis sector_averages absolute_weight relative_weight =
     (case rating_loop KPI_CONFIGS stock_kpis sector_averages absolute_weight relative_weight
             init_acc of
        Inl e \<Rightarrow> Inl e
      | Inr acc \<Rightarrow> finish_rating absolute_weight relative_weight acc)"


section \<open>The program in double arithmetic\<close>
















section \<open>Notions used in the statements\<close>

text \<open>The three running totals of the loop of \<^verbatim>\<open>calculate_rating\<close>.\<close>

definition totals :: "rating_acc \<Rightarrow> real \<times> real \<times> real" where
  "totals acc = (total_abs_weighted acc, total_rel_weighted acc, total_weight_used acc)"

fun totals_of :: "py_error + rating_acc \<Rightarrow> py_error + real \<times> real \<times> real" where
  "totals_of (Inl e) = Inl e"
| "totals_of (Inr acc) = Inr (totals acc)"

text \<open>A KPI is present in a dictionary when \<^verbatim>\<open>d.get(key)\<close> is not \<^verbatim>\<open>None\<close>.\<close>

definition present :: "py_dict \<Rightarrow> KPIConfig \<Rightarrow> bool" where
  "present d cfg = (dict_get d (key cfg) \<noteq> PyNone)"


text \<open>
  The comment on \<^verbatim>\<open>KPIConfig\<close> asks for thresholds on the right sides: for a
  lower-is-better KPI the best value is the low end, for a higher-is-better KPI the high end.
\<close>

definition oriented :: "KPIConfig \<Rightarrow> bool" where
  "oriented cfg =
     (if lower_is_better cfg then abs_best cfg < abs_worst cfg else abs_worst cfg < abs_best cfg)"

text \<open>A KPI definition with distinct thresholds on the wrong sides.\<close>

definition inverted_cfg :: KPIConfig where
  "inverted_cfg =
     \<lparr>key = ''inverted'', display_name = ''Inverted'', weight = 1, lower_is_better = True,
      abs_best = 10, abs_worst = 5, format_as_pct = False, format_decimals = 2\<rparr>"


text \<open>A stock for which only the trailing P/E is known.\<close>

definition pe_only :: py_dict where
  "pe_only = [''trailingPE'' \<mapsto> PyFloat 10]"


text \<open>Two dictionaries agree on the catalog when \<^verbatim>\<open>get\<close> reads the same at every KPI key.\<close>

definition agree :: "py_dict \<Rightarrow> py_dict \<Rightarrow> bool" where
  "agree d1 d2 = (\<forall>k\<in>set get_kpi_keys. dict_get d1 k = dict_get d2 k)"


text \<open>
  A KPI dictionary as \<^verbatim>\<open>extract_kpis\<close> builds it and as the annotations of
  \<^verbatim>\<open>compute_sector_averages\<close> ask: no catalog key holds a string.
\<close>

definition kpis_typed :: "py_dict \<Rightarrow> bool" where
  "kpis_typed d = (\<forall>k\<in>set get_kpi_keys. \<not> is_str (dict_get d k))"


text \<open>The end-to-end scenario of the specification.\<close>

definition scenario_stock :: py_dict where
  "scenario_stock = [''trailingPE'' \<mapsto> PyFloat 10, ''returnOnEquity'' \<mapsto> PyFloat (20 / 100)]"

definition scenario_sector :: py_dict where
  "scenario_sector = [''trailingPE'' \<mapsto> PyFloat 20, ''returnOnEquity'' \<mapsto> PyFloat (15 / 100)]"

text \<open>The entry of a key in the score table of a result, if there is a result.\<close>

definition entry_of :: "py_error + rating_result \<Rightarrow> string \<Rightarrow> kpi_score option" where
  "entry_of res k = (case res of Inl e \<Rightarrow> None | Inr r \<Rightarrow> kpi_scores r k)"







section \<open>Rounding\<close>

lemma round_half_even_of_int [simp]: "round_half_even (of_int k) = k"
  by (simp add: round_half_even_def)

lemma round_half_even_near:
  assumes "of_int k - 1 / 2 < x" "x < of_int k + 1 / 2"
  shows "round_half_even x = k"
proof (cases "of_int k \<le> x")
  case True
  then have "\<lfloor>x\<rfloor> = k" using assms by linarith
  then show ?thesis using assms by (simp add: round_half_even_def Let_def)
next
  case False
  then have "\<lfloor>x\<rfloor> = k - 1" using assms by linarith
  then show ?thesis using assms False by (simp add: round_half_even_def Let_def)
qed



lemma py_round_near:
  assumes "of_int k - 1 / 2 < x * 10 ^ n" "x * 10 ^ n < of_int k + 1 / 2"
  shows "py_round x n = of_int k / 10 ^ n"
  using round_half_even_near [OF assms] by (simp add: py_round_def)




section \<open>Absolute scores\<close>

lemma score_absolute_closed:
  "score_absolute v cfg = Inr
     (if lower_is_better cfg then
        (if v \<le> abs_best cfg then 1 else if v \<ge> abs_worst cfg then 0
         else 1 - (v - abs_best cfg) / (abs_worst cfg - abs_best cfg))
      else
        (if v \<ge> abs_best cfg then 1 else if v \<le> abs_worst cfg then 0
         else (v - abs_worst cfg) / (abs_best cfg - abs_worst cfg)))"
  by (simp add: score_absolute_def py_truediv_def)

lemma score_absolute_range:
  "\<exists>s. score_absolute v cfg = Inr s \<and> 0 \<le> s \<and> s \<le> 1"
  by (simp add: score_absolute_closed field_simps)

lemma interp_mono:
  fixes x y lo hi :: real
  assumes "x \<le> y" "lo < hi"
  shows "(x - lo) / (hi - lo) \<le> (y - lo) / (hi - lo)"
  using assms by (simp add: divide_right_mono)

lemma score_absolute_mono:
  assumes "x \<le> y"
  shows "\<exists>sx sy. score_absolute x cfg = Inr sx \<and> score_absolute y cfg = Inr sy \<and>
           (if lower_is_better cfg then sy \<le> sx else sx \<le> sy)"
proof -
  obtain sx where sx: "score_absolute x cfg = Inr sx" "0 \<le> sx" "sx \<le> 1"
    using score_absolute_range by blast
  obtain sy where sy: "score_absolute y cfg = Inr sy" "0 \<le> sy" "sy \<le> 1"
    using score_absolute_range by blast
  have "if lower_is_better cfg then sy \<le> sx else sx \<le> sy"
  proof (cases "lower_is_better cfg")
    case lib: True
    show ?thesis
    proof (cases "x \<le> abs_best cfg \<or> abs_worst cfg \<le> y")
      case True
      with lib sx sy assms show ?thesis
        by (auto simp add: score_absolute_closed split: if_splits)
    next
      case False
      then have "abs_best cfg < abs_worst cfg" "abs_best cfg < x" "y < abs_worst cfg"
        using assms by auto
      with lib sx(1) sy(1) assms interp_mono [of x y "abs_best cfg" "abs_worst cfg"]
      show ?thesis
        by (simp add: score_absolute_closed)
    qed
  next
    case hib: False
    show ?thesis
    proof (cases "abs_best cfg \<le> y \<or> x \<le> abs_worst cfg")
      case True
      with hib sx sy assms show ?thesis
        by (auto simp add: score_absolute_closed split: if_splits)
    next
      case False
      then have "abs_worst cfg < abs_best cfg" "abs_worst cfg < x" "y < abs_best cfg"
        using assms by auto
      with hib sx(1) sy(1) assms interp_mono [of x y "abs_worst cfg" "abs_best cfg"]
      show ?thesis
        by (simp add: score_absolute_closed)
    qed
  qed
  with sx(1) sy(1) show ?thesis by blast
qed

text \<open>
  Claim C5. For every KPI definition, \<^verbatim>\<open>_score_absolute\<close> returns a score in \<open>[0, 1]\<close> for
  every value, and it is monotonic in the value: for \<open>x \<le> y\<close> the score of \<open>x\<close> is at
  least the score of \<open>y\<close> when lower is better, and at most it when higher is better.
\<close>

theorem score_absolute_monotone_clamped:
  "(\<exists>s. score_absolute v cfg = Inr s \<and> 0 \<le> s \<and> s \<le> 1) \<and>
   (x \<le> y \<longrightarrow>
      (\<exists>sx sy. score_absolute x cfg = Inr sx \<and> score_absolute y cfg = Inr sy \<and>
         (if lower_is_better cfg then sy \<le> sx else sx \<le> sy)))"
  using score_absolute_range [of v cfg] score_absolute_mono [of x y cfg] by blast

theorem score_absolute_monotone_clamped_witness:
  "(12::real) \<le> 30 \<and>
   (\<exists>sx sy. score_absolute 12 (hd KPI_CONFIGS) = Inr sx \<and>
      score_absolute 30 (hd KPI_CONFIGS) = Inr sy \<and> sy \<le> sx)"
  using score_absolute_monotone_clamped [of 12 "hd KPI_CONFIGS" 12 30]
  by (simp add: KPI_CONFIGS_def)

text \<open>
  Claim C6, as the code has it. \<^verbatim>\<open>_score_absolute\<close> of \<^verbatim>\<open>abs_best\<close> is exactly 1 for
  every KPI definition. Its value at \<^verbatim>\<open>abs_worst\<close> is exactly 0 if and only if the
  thresholds are on the sides the comment on \<^verbatim>\<open>KPIConfig\<close> asks for, which holds for the
  ten entries of the catalog; that the thresholds differ is not enough.
\<close>

theorem score_absolute_at_thresholds:
  "score_absolute (abs_best cfg) cfg = Inr 1 \<and>
   (score_absolute (abs_worst cfg) cfg = Inr 0 \<longleftrightarrow> oriented cfg) \<and>
   (cfg \<in> set KPI_CONFIGS \<longrightarrow> oriented cfg \<and> score_absolute (abs_worst cfg) cfg = Inr 0)"
proof -
  have 1: "score_absolute (abs_best cfg) cfg = Inr 1"
    by (simp add: score_absolute_closed)
  have 2: "score_absolute (abs_worst cfg) cfg = Inr 0 \<longleftrightarrow> oriented cfg"
    by (auto simp add: score_absolute_closed oriented_def)
  have 3: "cfg \<in> set KPI_CONFIGS \<longrightarrow> oriented cfg"
    by (auto simp add: KPI_CONFIGS_def oriented_def)
  from 1 2 3 show ?thesis by blast
qed

theorem score_absolute_at_thresholds_witness:
  "hd KPI_CONFIGS \<in> set KPI_CONFIGS \<and>
   score_absolute 5 (hd KPI_CONFIGS) = Inr 1 \<and> score_absolute 60 (hd KPI_CONFIGS) = Inr 0"
  using score_absolute_at_thresholds [of "hd KPI_CONFIGS"]
  by (simp add: KPI_CONFIGS_def)

text \<open>
  Claim C6, as stated, fails: the thresholds of \<open>inverted_cfg\<close> differ, and its score at
  \<^verbatim>\<open>abs_worst\<close> is 1, not 0.
\<close>

theorem score_absolute_at_thresholds_counterexample:
  "abs_best inverted_cfg \<noteq> abs_worst inverted_cfg \<and>
   score_absolute (abs_worst inverted_cfg) inverted_cfg = Inr 1 \<and>
   score_absolute (abs_worst inverted_cfg) inverted_cfg \<noteq> Inr 0"
  by (simp add: inverted_cfg_def score_absolute_def)


section \<open>Relative scores\<close>

lemma one_plus_exp_nonzero: "1 + exp (t::real) \<noteq> 0"
  using exp_gt_zero [of t] by linarith


text \<open>
  Claim C7. The relative score is exactly 0.5 when the sector average is \<^verbatim>\<open>None\<close> or
  zero, and when the value equals a non-zero average; \<^verbatim>\<open>_score_relative\<close> never raises
  \<^verbatim>\<open>ZeroDivisionError\<close>, whatever its arguments.
\<close>

theorem score_relative_neutral:
  "score_relative v PyNone cfg = Inr (1 / 2) \<and>
   score_relative v (PyFloat 0) cfg = Inr (1 / 2) \<and>
   (avg \<noteq> 0 \<longrightarrow> score_relative avg (PyFloat avg) cfg = Inr (1 / 2)) \<and>
   score_relative v a cfg \<noteq> Inl ZeroDivisionError"
proof -
  have "score_relative v a cfg \<noteq> Inl ZeroDivisionError"
    by (cases a)
      (auto simp add: py_truediv_def math_exp_def Let_def one_plus_exp_nonzero
         split: sum.splits if_splits)
  moreover have "avg \<noteq> 0 \<longrightarrow> score_relative avg (PyFloat avg) cfg = Inr (1 / 2)"
    by (simp add: py_truediv_def math_exp_def DBL_MAX_def)
  ultimately show ?thesis by simp
qed

theorem score_relative_neutral_witness:
  "(20::real) \<noteq> 0 \<and> score_relative 20 (PyFloat 20) (hd KPI_CONFIGS) = Inr (1 / 2)"
  using score_relative_neutral [of _ "hd KPI_CONFIGS" 20] by simp


section \<open>The rating loop\<close>

lemma rating_loop_cong:
  assumes "\<forall>c\<in>set cfgs. dict_get s1 (key c) = dict_get s2 (key c)"
      and "\<forall>c\<in>set cfgs. dict_get a1 (key c) = dict_get a2 (key c)"
  shows "rating_loop cfgs s1 a1 aw rw acc = rating_loop cfgs s2 a2 aw rw acc"
  using assms
proof (induction cfgs arbitrary: acc)
  case Nil
  show ?case by simp
next
  case (Cons c cfgs)
  then show ?case
    by (simp add: Let_def split: pyval.splits sum.splits)
qed

lemma rating_loop_step:
  assumes "rating_loop (c # cfgs) s a aw rw acc = Inr acc'"
  obtains acc1 e where "rating_loop cfgs s a aw rw acc1 = Inr acc'"
    and "kpi_scores_acc acc1 = (kpi_scores_acc acc)(key c \<mapsto> e)"
  using assms
  by (auto simp add: Let_def split: pyval.splits sum.splits if_splits)

lemma rating_loop_frame:
  assumes "rating_loop cfgs s a aw rw acc = Inr acc'" "k \<notin> key ` set cfgs"
  shows "kpi_scores_acc acc' k = kpi_scores_acc acc k"
  using assms
proof (induction cfgs arbitrary: acc)
  case Nil
  then show ?case by simp
next
  case (Cons c cfgs)
  from Cons.prems(1) obtain acc1 e where
    1: "rating_loop cfgs s a aw rw acc1 = Inr acc'"
    and 2: "kpi_scores_acc acc1 = (kpi_scores_acc acc)(key c \<mapsto> e)"
    by (rule rating_loop_step)
  from Cons.IH [OF 1] Cons.prems(2) 2 show ?case by simp
qed

lemma rating_loop_dom:
  assumes "rating_loop cfgs s a aw rw acc = Inr acc'"
  shows "dom (kpi_scores_acc acc') = dom (kpi_scores_acc acc) \<union> key ` set cfgs"
  using assms
proof (induction cfgs arbitrary: acc)
  case Nil
  then show ?case by simp
next
  case (Cons c cfgs)
  from Cons.prems(1) obtain acc1 e where
    1: "rating_loop cfgs s a aw rw acc1 = Inr acc'"
    and 2: "kpi_scores_acc acc1 = (kpi_scores_acc acc)(key c \<mapsto> e)"
    by (rule rating_loop_step)
  from Cons.IH [OF 1] 2 show ?case by auto
qed

lemma rating_loop_totals_cong:
  assumes "totals acc1 = totals acc2"
  shows "totals_of (rating_loop cfgs s a aw rw acc1)
       = totals_of (rating_loop cfgs s a aw rw acc2)"
  using assms
proof (induction cfgs arbitrary: acc1 acc2)
  case Nil
  then show ?case by simp
next
  case (Cons c cfgs)
  have step: "\<And>f g. totals (acc1\<lparr>kpi_scores_acc := f\<rparr>) = totals (acc2\<lparr>kpi_scores_acc := g\<rparr>)"
    using Cons.prems by (simp add: totals_def)
  show ?case
  proof (cases "dict_get s (key c)")
    case PyNone
    then show ?thesis using Cons.IH [OF step] by simp
  next
    case (PyFloat v)
    show ?thesis
    proof (cases "score_absolute v c")
      case (Inl e)
      with PyFloat show ?thesis by simp
    next
      case (Inr x)
      show ?thesis
      proof (cases "if dict_get a (key c) \<noteq> PyNone then score_relative v (dict_get a (key c)) c else Inr (1 / 2)")
        case (Inl e)
        with PyFloat Inr show ?thesis by (simp add: Let_def)
      next
        case r: (Inr y)
        have "totals \<lparr>total_abs_weighted = total_abs_weighted acc1 + x * weight c,
                      total_rel_weighted = total_rel_weighted acc1 + y * weight c,
                      total_weight_used = total_weight_used acc1 + weight c,
                      kpi_scores_acc = f\<rparr>
            = totals \<lparr>total_abs_weighted = total_abs_weighted acc2 + x * weight c,
                      total_rel_weighted = total_rel_weighted acc2 + y * weight c,
                      total_weight_used = total_weight_used acc2 + weight c,
                      kpi_scores_acc = g\<rparr>" for f g
          using Cons.prems by (simp add: totals_def)
        from Cons.IH [OF this] show ?thesis using PyFloat Inr r
          by (simp add: Let_def)
      qed
    qed
  next
    case (PyStr x3)
    then show ?thesis by simp
  qed
qed

lemma rating_loop_filter:
  "totals_of (rating_loop (filter (present s) cfgs) s a aw rw acc)
 = totals_of (rating_loop cfgs s a aw rw acc)"
proof (induction cfgs arbitrary: acc)
  case Nil
  show ?case by simp
next
  case (Cons c cfgs)
  show ?case
  proof (cases "present s c")
    case False
    then have none: "dict_get s (key c) = PyNone" by (simp add: present_def)
    let ?acc1 = "acc\<lparr>kpi_scores_acc := (kpi_scores_acc acc)
                  (key c \<mapsto> \<lparr>absolute = None, relative = None, combined = None\<rparr>)\<rparr>"
    have "totals acc = totals ?acc1"
      by (simp add: totals_def)
    then have "totals_of (rating_loop cfgs s a aw rw acc)
             = totals_of (rating_loop cfgs s a aw rw ?acc1)"
      by (rule rating_loop_totals_cong)
    moreover have "rating_loop (c # cfgs) s a aw rw acc = rating_loop cfgs s a aw rw ?acc1"
      using none by simp
    moreover have "filter (present s) (c # cfgs) = filter (present s) cfgs"
      using False by simp
    ultimately show ?thesis
      using Cons.IH [of acc] by (simp only:)
  next
    case True
    then show ?thesis
      by (auto simp add: Let_def Cons.IH split: pyval.splits sum.splits)
  qed
qed

lemma rating_loop_weight:
  assumes "rating_loop cfgs s a aw rw acc = Inr acc'"
  shows "total_weight_used acc' = total_weight_used acc + sum_list (map weight (filter (present s) cfgs))"
  using assms
proof (induction cfgs arbitrary: acc)
  case Nil
  then show ?case by simp
next
  case (Cons c cfgs)
  from Cons.prems show ?case
    by (auto simp add: Let_def present_def split: pyval.splits sum.splits if_splits dest!: Cons.IH)
qed



lemma unit_ratio:
  fixes t u :: real
  assumes "0 \<le> t" "t \<le> u" "0 < u"
  shows "0 \<le> t / u \<and> t / u \<le> 1"
  using assms by simp



section \<open>The catalog\<close>

lemma KPI_weights_pos: "\<forall>c\<in>set KPI_CONFIGS. 0 < weight c"
  by (simp add: KPI_CONFIGS_def)

lemma KPI_keys_distinct: "distinct (map key KPI_CONFIGS)"
  by (simp add: KPI_CONFIGS_def)


section \<open>The rating and its range\<close>

lemma pe_only_rating:
  "\<exists>ks. calculate_rating pe_only Map.empty (2 / 5) (3 / 5) =
     Inr \<lparr>overall_rating = 7, absolute_score = 92 / 10, relative_score = 55 / 10,
          kpi_scores = ks\<rparr> \<and>
     ks ''trailingPE'' = Some \<lparr>absolute = Some (909 / 1000), relative = Some (1 / 2),
                                 combined = Some (664 / 1000)\<rparr>"
  apply (simp add: calculate_rating_def KPI_CONFIGS_def pe_only_def init_acc_def dict_get_def
      score_absolute_def py_truediv_def finish_rating_def Let_def)
  apply (simp add: py_round_def round_half_even_def Let_def)
  done



section \<open>Entries of the score table\<close>

lemma rel_if:
  "(if avg \<noteq> PyNone then score_relative v avg c else Inr (1 / 2)) = score_relative v avg c"
  by simp

lemma py_round_half: "py_round (1 / 2) 3 = 1 / 2"
  by (simp add: py_round_def round_half_even_def)

lemma score_relative_none_round:
  assumes "score_relative v PyNone c = Inr y"
  shows "py_round y 3 = 1 / 2"
proof -
  from assms have "y = 1 / 2" by simp
  then show ?thesis by (simp only: py_round_half)
qed

lemma rating_loop_entry:
  assumes "rating_loop cfgs s a aw rw acc = Inr acc'" "c \<in> set cfgs" "distinct (map key cfgs)"
  shows "case dict_get s (key c) of
           PyNone \<Rightarrow> kpi_scores_acc acc' (key c)
                      = Some \<lparr>absolute = None, relative = None, combined = None\<rparr>
         | PyStr t \<Rightarrow> False
         | PyFloat v \<Rightarrow>
             (\<exists>x y. score_absolute v c = Inr x \<and>
                    score_relative v (dict_get a (key c)) c = Inr y \<and>
                    kpi_scores_acc acc' (key c)
                      = Some \<lparr>absolute = Some (py_round x 3), relative = Some (py_round y 3),
                              combined = Some (py_round (aw * x + rw * y) 3)\<rparr>)"
  using assms
proof (induction cfgs arbitrary: acc)
  case Nil
  then show ?case by simp
next
  case (Cons d cfgs)
  show ?case
  proof (cases "c = d")
    case False
    with Cons.prems have c: "c \<in> set cfgs" and dist: "distinct (map key cfgs)" by simp_all
    from Cons.prems(1) obtain acc1 where
      1: "rating_loop cfgs s a aw rw acc1 = Inr acc'"
      by (rule rating_loop_step)
    from Cons.IH [OF 1 c dist] show ?thesis .
  next
    case True
    from Cons.prems(3) True have notin: "key c \<notin> key ` set cfgs" by simp
    show ?thesis
    proof (cases "dict_get s (key c)")
      case PyNone
      with Cons.prems(1) True have "rating_loop cfgs s a aw rw
        (acc\<lparr>kpi_scores_acc := (kpi_scores_acc acc)
           (key c \<mapsto> \<lparr>absolute = None, relative = None, combined = None\<rparr>)\<rparr>) = Inr acc'"
        by simp
      from rating_loop_frame [OF this notin] PyNone show ?thesis by simp
    next
      case (PyStr t)
      with Cons.prems(1) True show ?thesis by simp
    next
      case (PyFloat v)
      obtain x where x: "score_absolute v c = Inr x"
        using score_absolute_range by blast
      from Cons.prems(1) True PyFloat x obtain y where
        y: "score_relative v (dict_get a (key c)) c = Inr y"
        by (cases "score_relative v (dict_get a (key c)) c") (simp_all add: Let_def rel_if)
      have "rating_loop cfgs s a aw rw
         \<lparr>total_abs_weighted = total_abs_weighted acc + x * weight c,
          total_rel_weighted = total_rel_weighted acc + y * weight c,
          total_weight_used = total_weight_used acc + weight c,
          kpi_scores_acc = (kpi_scores_acc acc)
            (key c \<mapsto> \<lparr>absolute = Some (py_round x 3),
                           relative = Some (py_round y 3),
                           combined = Some (py_round (aw * x + rw * y) 3)\<rparr>)\<rparr> = Inr acc'"
        using Cons.prems(1) True PyFloat x y by (simp add: Let_def rel_if)
      from rating_loop_frame [OF this notin] PyFloat x y show ?thesis by simp
    qed
  qed
qed

lemma calculate_rating_loop:
  assumes "calculate_rating s a aw rw = Inr r"
  obtains acc where "rating_loop KPI_CONFIGS s a aw rw init_acc = Inr acc"
    and "finish_rating aw rw acc = Inr r" and "kpi_scores r = kpi_scores_acc acc"
proof -
  from assms obtain acc where
    loop: "rating_loop KPI_CONFIGS s a aw rw init_acc = Inr acc"
    and fin: "finish_rating aw rw acc = Inr r"
    by (auto simp add: calculate_rating_def split: sum.splits)
  from fin have "kpi_scores r = kpi_scores_acc acc"
    by (auto simp add: finish_rating_def Let_def split: sum.splits if_splits prod.splits)
  with loop fin show ?thesis by (rule that)
qed

section \<open>Absent KPIs\<close>

lemma py_round_one: "py_round 1 (Suc 0) = 1"
  by (simp add: py_round_def round_half_even_def)

lemma filter_none:
  assumes "\<forall>c\<in>set cfgs. dict_get s (key c) = PyNone"
  shows "filter (present s) cfgs = []"
  using assms by (simp add: present_def)

lemma filter_single:
  assumes "distinct (map key cfgs)" "c \<in> set cfgs" "present s c"
    and "\<forall>c'\<in>set cfgs. key c' \<noteq> key c \<longrightarrow> \<not> present s c'"
  shows "filter (present s) cfgs = [c]"
  using assms
proof (induction cfgs)
  case Nil
  then show ?case by simp
next
  case (Cons d cfgs)
  show ?case
  proof (cases "d = c")
    case True
    with Cons.prems(1) have "key c \<notin> key ` set cfgs" by simp
    then have "\<forall>c'\<in>set cfgs. key c' \<noteq> key c" by (metis imageI)
    with Cons.prems(4) have "\<forall>c'\<in>set cfgs. \<not> present s c'" by simp
    then have "filter (present s) cfgs = []" by simp
    with True Cons.prems(3) show ?thesis by simp
  next
    case False
    with Cons.prems have c: "c \<in> set cfgs" and "key d \<noteq> key c" by auto
    with Cons.prems(4) have "\<not> present s d" by simp
    moreover have "filter (present s) cfgs = [c]"
      using Cons.IH c Cons.prems by simp
    ultimately show ?thesis by simp
  qed
qed

lemma totals_of_Inr:
  assumes "totals_of res = Inr t"
  obtains acc where "res = Inr acc" "totals acc = t"
  using assms by (cases res) simp_all

text \<open>
  Claim C4. When \<^verbatim>\<open>calculate_rating\<close> returns, the entry of every catalog key in the
  score table has its three fields absent if and only if the stock's own value for the key
  is absent (and if one field is absent, all are); when the stock's value is present and the
  sector average is absent, the relative field is the neutral 0.5. Absent KPIs add nothing
  to the three running totals: the loop over the present KPIs alone ends with the same
  totals, and the weight used is the sum of the weights of the present KPIs.
\<close>

theorem kpi_entry_absent_iff:
  assumes "calculate_rating s a aw rw = Inr r" and "c \<in> set KPI_CONFIGS"
  shows "(\<exists>e. kpi_scores r (key c) = Some e \<and>
            ((absolute e = None \<and> relative e = None \<and> combined e = None) \<longleftrightarrow>
                dict_get s (key c) = PyNone) \<and>
            ((absolute e = None \<or> relative e = None \<or> combined e = None) \<longrightarrow>
                dict_get s (key c) = PyNone) \<and>
            (dict_get s (key c) \<noteq> PyNone \<and> dict_get a (key c) = PyNone \<longrightarrow>
                relative e = Some (1 / 2))) \<and>
         totals_of (rating_loop (filter (present s) KPI_CONFIGS) s a aw rw init_acc)
           = totals_of (rating_loop KPI_CONFIGS s a aw rw init_acc) \<and>
         (\<exists>acc. rating_loop KPI_CONFIGS s a aw rw init_acc = Inr acc \<and>
            total_weight_used acc = sum_list (map weight (filter (present s) KPI_CONFIGS)))"
proof -
  from assms(1) obtain acc where
    loop: "rating_loop KPI_CONFIGS s a aw rw init_acc = Inr acc"
    and ks: "kpi_scores r = kpi_scores_acc acc"
    by (rule calculate_rating_loop)
  have entry: "\<exists>e. kpi_scores r (key c) = Some e \<and>
            ((absolute e = None \<and> relative e = None \<and> combined e = None) \<longleftrightarrow>
                dict_get s (key c) = PyNone) \<and>
            ((absolute e = None \<or> relative e = None \<or> combined e = None) \<longrightarrow>
                dict_get s (key c) = PyNone) \<and>
            (dict_get s (key c) \<noteq> PyNone \<and> dict_get a (key c) = PyNone \<longrightarrow>
                relative e = Some (1 / 2))"
  proof (cases "dict_get s (key c)")
    case PyNone
    with rating_loop_entry [OF loop assms(2) KPI_keys_distinct] ks show ?thesis by simp
  next
    case (PyStr t)
    with rating_loop_entry [OF loop assms(2) KPI_keys_distinct] show ?thesis by simp
  next
    case (PyFloat v)
    with rating_loop_entry [OF loop assms(2) KPI_keys_distinct] obtain x y where
      y: "score_relative v (dict_get a (key c)) c = Inr y"
      and e: "kpi_scores_acc acc (key c)
          = Some \<lparr>absolute = Some (py_round x 3), relative = Some (py_round y 3),
                  combined = Some (py_round (aw * x + rw * y) 3)\<rparr>"
      by auto
    have "dict_get a (key c) = PyNone \<longrightarrow> py_round y 3 = 1 / 2"
      using y score_relative_none_round [of v c y] by auto
    with e ks PyFloat show ?thesis by simp
  qed
  have "total_weight_used acc = sum_list (map weight (filter (present s) KPI_CONFIGS))"
    using rating_loop_weight [OF loop] by (simp add: init_acc_def)
  with entry loop rating_loop_filter [of s KPI_CONFIGS a aw rw init_acc] show ?thesis
    by blast
qed

theorem kpi_entry_absent_iff_witness:
  "\<exists>r. calculate_rating pe_only Map.empty (2 / 5) (3 / 5) = Inr r \<and>
       hd KPI_CONFIGS \<in> set KPI_CONFIGS \<and>
       (\<exists>e. kpi_scores r ''trailingPE'' = Some e \<and> absolute e \<noteq> None \<and>
            relative e = Some (1 / 2))"
proof -
  from pe_only_rating obtain r where
    r: "calculate_rating pe_only Map.empty (2 / 5) (3 / 5) = Inr r"
    by blast
  have c: "hd KPI_CONFIGS \<in> set KPI_CONFIGS" by (simp add: KPI_CONFIGS_def)
  have k: "key (hd KPI_CONFIGS) = ''trailingPE''" by (simp add: KPI_CONFIGS_def)
  have "dict_get pe_only ''trailingPE'' \<noteq> PyNone" "dict_get Map.empty ''trailingPE'' = PyNone"
    by (simp_all add: pe_only_def dict_get_def)
  with kpi_entry_absent_iff [OF r c] r c k show ?thesis
    by auto
qed


text \<open>
  Claim C8. If every catalog KPI is absent from the stock's dictionary, the three running
  totals are still 0 after the loop, and \<^verbatim>\<open>calculate_rating\<close> returns the overall
  rating 1.0 (as well as the absolute and the relative score 1.0), whatever the weights.
\<close>

theorem all_absent_floor:
  assumes "\<forall>c\<in>set KPI_CONFIGS. dict_get s (key c) = PyNone"
  shows "totals_of (rating_loop KPI_CONFIGS s a aw rw init_acc) = Inr (0, 0, 0) \<and>
         (\<exists>r. calculate_rating s a aw rw = Inr r \<and> overall_rating r = 1 \<and>
               absolute_score r = 1 \<and> relative_score r = 1)"
proof -
  have "filter (present s) KPI_CONFIGS = []"
    using assms by (rule filter_none)
  with rating_loop_filter [of s KPI_CONFIGS a aw rw init_acc]
  have t: "totals_of (rating_loop KPI_CONFIGS s a aw rw init_acc) = Inr (0, 0, 0)"
    by (simp add: totals_def init_acc_def)
  then obtain acc where acc: "rating_loop KPI_CONFIGS s a aw rw init_acc = Inr acc"
    and "totals acc = (0, 0, 0)"
    by (rule totals_of_Inr)
  then have "total_abs_weighted acc = 0" "total_rel_weighted acc = 0" "total_weight_used acc = 0"
    by (simp_all add: totals_def)
  then have "finish_rating aw rw acc =
      Inr \<lparr>overall_rating = 1, absolute_score = 1, relative_score = 1,
           kpi_scores = kpi_scores_acc acc\<rparr>"
    by (simp add: finish_rating_def py_round_one)
  with acc t show ?thesis by (simp add: calculate_rating_def)
qed

theorem all_absent_floor_witness:
  "totals_of (rating_loop KPI_CONFIGS Map.empty pe_only (2 / 5) (3 / 5) init_acc) = Inr (0, 0, 0) \<and>
   (\<exists>r. calculate_rating Map.empty pe_only (2 / 5) (3 / 5) = Inr r \<and> overall_rating r = 1)"
proof -
  have h: "\<forall>c\<in>set KPI_CONFIGS. dict_get Map.empty (key c) = PyNone"
    by (simp add: dict_get_def)
  from all_absent_floor [OF h, of pe_only "2 / 5" "3 / 5"] h show ?thesis by blast
qed

section \<open>A single present KPI\<close>

lemma single_present_general:
  assumes dist: "distinct (map key cfgs)" and c: "c \<in> set cfgs"
    and v: "dict_get s (key c) = PyFloat v"
    and others: "\<forall>c'\<in>set cfgs. key c' \<noteq> key c \<longrightarrow> dict_get s (key c') = PyNone"
    and x: "score_absolute v c = Inr x"
    and y: "score_relative v (dict_get a (key c)) c = Inr y"
  shows "totals_of (rating_loop cfgs s a aw rw init_acc) = Inr (x * weight c, y * weight c, weight c)"
proof -
  have "filter (present s) cfgs = [c]"
    using dist c v others by (intro filter_single) (simp_all add: present_def)
  with rating_loop_filter [of s cfgs a aw rw init_acc]
  have "totals_of (rating_loop cfgs s a aw rw init_acc) = totals_of (rating_loop [c] s a aw rw init_acc)"
    by simp
  also have "\<dots> = Inr (x * weight c, y * weight c, weight c)"
    using v x y by (simp add: Let_def rel_if totals_def init_acc_def)
  finally show ?thesis .
qed

lemma finish_rating_single:
  assumes "totals acc = (x * w, y * w, w)" "0 < w"
  shows "\<exists>r. finish_rating aw rw acc = Inr r \<and>
           overall_rating r = py_round (1 + (aw * x + rw * y) * 9) 1 \<and>
           absolute_score r = py_round (1 + x * 9) 1 \<and>
           relative_score r = py_round (1 + y * 9) 1"
proof -
  from assms have "total_abs_weighted acc = x * w" "total_rel_weighted acc = y * w"
    "total_weight_used acc = w" by (simp_all add: totals_def)
  with assms(2) show ?thesis
    by (simp add: finish_rating_def py_truediv_def)
qed

text \<open>
  In exact arithmetic the weight of a single present KPI cancels: the overall rating is
  \<open>round(1 + (0.40 x + 0.60 y) 9, 1)\<close> for its absolute score \<open>x\<close> and its relative
  score \<open>y\<close>.
\<close>

lemma single_kpi_exact:
  assumes c: "c \<in> set KPI_CONFIGS"
    and v: "dict_get s (key c) = PyFloat v"
    and others: "\<forall>c'\<in>set KPI_CONFIGS. key c' \<noteq> key c \<longrightarrow> dict_get s (key c') = PyNone"
    and x: "score_absolute v c = Inr x"
    and y: "score_relative v (dict_get a (key c)) c = Inr y"
  shows "\<exists>r. calculate_rating s a (2 / 5) (3 / 5) = Inr r \<and>
           overall_rating r = py_round (1 + (2 / 5 * x + 3 / 5 * y) * 9) 1"
proof -
  from single_present_general [OF KPI_keys_distinct c v others x y]
  obtain acc where acc: "rating_loop KPI_CONFIGS s a (2 / 5) (3 / 5) init_acc = Inr acc"
    and t: "totals acc = (x * weight c, y * weight c, weight c)"
    by (rule totals_of_Inr)
  have "0 < weight c" using KPI_weights_pos c by blast
  from finish_rating_single [OF t this, of "2 / 5" "3 / 5"] acc show ?thesis
    by (auto simp add: calculate_rating_def)
qed

lemma single_kpi_exact_example:
  "\<exists>r. calculate_rating pe_only Map.empty (2 / 5) (3 / 5) = Inr r \<and>
       overall_rating r = py_round (1 + (2 / 5 * (10 / 11) + 3 / 5 * (1 / 2)) * 9) 1"
proof -
  have c: "hd KPI_CONFIGS \<in> set KPI_CONFIGS" by (simp add: KPI_CONFIGS_def)
  have v: "dict_get pe_only (key (hd KPI_CONFIGS)) = PyFloat 10"
    by (simp add: KPI_CONFIGS_def pe_only_def dict_get_def)
  have others: "\<forall>c'\<in>set KPI_CONFIGS. key c' \<noteq> key (hd KPI_CONFIGS) \<longrightarrow>
      dict_get pe_only (key c') = PyNone"
    by (simp add: KPI_CONFIGS_def pe_only_def dict_get_def)
  have x: "score_absolute 10 (hd KPI_CONFIGS) = Inr (10 / 11)"
    by (simp add: KPI_CONFIGS_def score_absolute_def py_truediv_def)
  have y: "score_relative 10 (dict_get Map.empty (key (hd KPI_CONFIGS))) (hd KPI_CONFIGS) = Inr (1 / 2)"
    by (simp add: dict_get_def)
  from single_kpi_exact [OF c v others x y] show ?thesis .
qed


section \<open>Keys outside the catalog\<close>

lemma present_values_agree:
  assumes "list_all2 agree ps qs" "k \<in> set get_kpi_keys"
  shows "present_values ps k = present_values qs k"
  using assms
  by (induction ps qs rule: list_all2_induct) (auto simp add: present_values_def agree_def)

lemma averages_loop_agree:
  assumes "list_all2 agree ps qs" "key ` set cfgs \<subseteq> set get_kpi_keys"
  shows "averages_loop cfgs ps av = averages_loop cfgs qs av"
  using assms(2)
proof (induction cfgs arbitrary: av)
  case Nil
  show ?case by simp
next
  case (Cons c cfgs)
  then have "present_values ps (key c) = present_values qs (key c)"
    using present_values_agree [OF assms(1)] by simp
  with Cons show ?case by (simp add: Let_def split: sum.splits)
qed

lemma compute_sector_averages_agree:
  assumes "list_all2 agree ps qs"
  shows "compute_sector_averages ps = compute_sector_averages qs"
  unfolding compute_sector_averages_def
  using assms by (rule averages_loop_agree) (simp add: get_kpi_keys_def)

lemma calculate_rating_agree:
  assumes "agree s1 s2" "agree a1 a2"
  shows "calculate_rating s1 a1 aw rw = calculate_rating s2 a2 aw rw"
proof -
  have "rating_loop KPI_CONFIGS s1 a1 aw rw init_acc = rating_loop KPI_CONFIGS s2 a2 aw rw init_acc"
    using assms by (intro rating_loop_cong) (simp_all add: agree_def get_kpi_keys_def)
  then show ?thesis by (simp add: calculate_rating_def)
qed

lemma ticker_not_kpi: "''_ticker'' \<notin> set get_kpi_keys"
  by (simp add: get_kpi_keys_def KPI_CONFIGS_def)

lemma agree_set_ticker: "agree (set_ticker d t) d"
  using ticker_not_kpi by (auto simp add: agree_def set_ticker_def dict_get_def)

lemma agree_tickers:
  assumes "length ts = length ps"
  shows "list_all2 agree (map2 set_ticker ps ts) ps"
  using assms
proof (induction ps arbitrary: ts)
  case Nil
  then show ?case by simp
next
  case (Cons p ps)
  then obtain t ts' where "ts = t # ts'" "length ts' = length ps"
    by (cases ts) simp_all
  with Cons.IH [of ts'] show ?case by (simp add: agree_set_ticker)
qed

lemma scores_dom:
  assumes "calculate_rating s a aw rw = Inr r"
  shows "dom (kpi_scores r) = set get_kpi_keys"
proof -
  from assms obtain acc where
    loop: "rating_loop KPI_CONFIGS s a aw rw init_acc = Inr acc"
    and ks: "kpi_scores r = kpi_scores_acc acc"
    by (rule calculate_rating_loop)
  from rating_loop_dom [OF loop] ks show ?thesis
    by (simp add: init_acc_def get_kpi_keys_def)
qed

text \<open>
  Claim C10. Keys outside the catalog are inert. Stock dictionaries that agree on the catalog
  keys, with sector averages that agree on them, get the same result from
  \<^verbatim>\<open>calculate_rating\<close>; peer lists that agree pairwise on the catalog keys get the same
  result from \<^verbatim>\<open>compute_sector_averages\<close>, so the \<^verbatim>\<open>"_ticker"\<close> strings the data layer
  adds change nothing; and the score table of a result has exactly the catalog's keys.
\<close>

theorem non_catalog_keys_inert:
  "(agree s1 s2 \<and> agree a1 a2 \<longrightarrow>
      calculate_rating s1 a1 aw rw = calculate_rating s2 a2 aw rw) \<and>
   (list_all2 agree ps qs \<longrightarrow> compute_sector_averages ps = compute_sector_averages qs) \<and>
   (length ts = length ps \<longrightarrow>
      compute_sector_averages (map2 set_ticker ps ts) = compute_sector_averages ps) \<and>
   (calculate_rating s a aw rw = Inr r \<longrightarrow> dom (kpi_scores r) = set get_kpi_keys)"
  using calculate_rating_agree [of s1 s2 a1 a2 aw rw] compute_sector_averages_agree [of ps qs]
    compute_sector_averages_agree [OF agree_tickers, of ts ps] scores_dom [of s a aw rw r]
  by blast

theorem non_catalog_keys_inert_witness:
  "calculate_rating (set_ticker pe_only ''AAPL'') (set_ticker Map.empty ''Sector'') (2 / 5) (3 / 5)
     = calculate_rating pe_only Map.empty (2 / 5) (3 / 5) \<and>
   compute_sector_averages [set_ticker pe_only ''AAPL'', set_ticker Map.empty ''MSFT'']
     = compute_sector_averages [pe_only, Map.empty] \<and>
   (\<exists>r. calculate_rating pe_only Map.empty (2 / 5) (3 / 5) = Inr r \<and>
        dom (kpi_scores r) = set get_kpi_keys)"
proof -
  have 1: "agree (set_ticker pe_only ''AAPL'') pe_only" "agree (set_ticker Map.empty ''Sector'') Map.empty"
    by (simp_all add: agree_def set_ticker_def dict_get_def get_kpi_keys_def KPI_CONFIGS_def)
  have 2: "length [''AAPL'', ''MSFT''] = length [pe_only, Map.empty]" by simp
  from pe_only_rating obtain r where
    r: "calculate_rating pe_only Map.empty (2 / 5) (3 / 5) = Inr r" by blast
  from non_catalog_keys_inert [where ?s1.0 = "set_ticker pe_only ''AAPL''" and ?s2.0 = pe_only
      and ?a1.0 = "set_ticker Map.empty ''Sector''" and ?a2.0 = Map.empty
      and aw = "2 / 5" and rw = "3 / 5" and ps = "[pe_only, Map.empty]"
      and ts = "[''AAPL'', ''MSFT'']" and s = pe_only and a = Map.empty and r = r] 1 2 r
  show ?thesis by auto
qed

section \<open>The sector median\<close>


lemma floats_map: "list_all is_float vs \<Longrightarrow> map PyFloat (map float_of vs) = vs"
proof (induction vs)
  case Nil
  show ?case by simp
next
  case (Cons v vs)
  then show ?case by (cases v) simp_all
qed
















section \<open>The end-to-end scenario\<close>

lemma DBL_MAX_ge_one: "1 \<le> DBL_MAX"
proof -
  have "(1::real) \<le> 2 ^ 53 - 1" by simp
  moreover have "(1::real) \<le> 2 ^ 971" by (rule one_le_power) simp
  ultimately have "(1::real) * 1 \<le> (2 ^ 53 - 1) * 2 ^ 971"
    by (intro mult_mono) simp_all
  then show ?thesis by (simp add: DBL_MAX_def)
qed

lemma math_exp_nonpos:
  assumes "x \<le> 0"
  shows "math_exp x = Inr (exp x)"
proof -
  have "exp x \<le> 1" using assms by simp
  with DBL_MAX_ge_one have "\<not> DBL_MAX < exp x" by linarith
  then show ?thesis by (simp add: math_exp_def)
qed

text \<open>
  The relative score is not total: a deviation of 256 sector averages on the wrong side sends
  \<^verbatim>\<open>math.exp\<close> out of range, and the exception leaves \<^verbatim>\<open>calculate_rating\<close>.
\<close>

lemma exp_1024_overflows: "DBL_MAX < exp (1024::real)"
proof -
  have "(2::real) \<le> exp 1" using exp_ge_add_one_self [of "1::real"] by simp
  then have "(2::real) ^ 1024 \<le> exp 1 ^ 1024" by (intro power_mono) simp_all
  also have "exp (1::real) ^ 1024 = exp 1024" by (simp flip: exp_of_nat_mult)
  finally have "(2::real) ^ 1024 \<le> exp 1024" .
  moreover have "DBL_MAX < (2::real) ^ 1024"
  proof -
    have "(2::real) ^ 1024 = 2 ^ 53 * 2 ^ 971" by (simp flip: power_add)
    then show ?thesis by (simp add: DBL_MAX_def algebra_simps)
  qed
  ultimately show ?thesis by linarith
qed

lemma score_relative_overflow:
  "score_relative 1285 (PyFloat 5) (hd KPI_CONFIGS) = Inl OverflowError"
  using exp_1024_overflows by (simp add: KPI_CONFIGS_def py_truediv_def math_exp_def)

lemma calculate_rating_overflow:
  "calculate_rating [''trailingPE'' \<mapsto> PyFloat 1285] [''trailingPE'' \<mapsto> PyFloat 5] (2 / 5) (3 / 5)
     = Inl OverflowError"
  using exp_1024_overflows
  by (simp add: calculate_rating_def KPI_CONFIGS_def dict_get_def score_absolute_def
      py_truediv_def math_exp_def)

lemma exp_2_bounds: "73887 / 10000 \<le> exp (2::real) \<and> exp (2::real) \<le> 73914 / 10000"
proof -
  obtain t :: real where t: "\<bar>t\<bar> \<le> \<bar>2\<bar>"
    and e: "exp (2::real) = (\<Sum>m<10. 2 ^ m / fact m) + exp t / fact 10 * 2 ^ 10"
    using Maclaurin_exp_le [of 2 10] by blast
  have s: "(\<Sum>m<10. (2::real) ^ m / fact m) = 20947 / 2835"
    by (simp add: lessThan_nat_numeral fact_numeral)
  have "exp t \<le> exp 2" using t by simp
  also have "exp (2::real) = exp 1 * exp 1" by (simp flip: exp_add)
  also have "\<dots> \<le> 3 * 3" using exp_le by (intro mult_mono) simp_all
  finally have up: "exp t \<le> 9" by simp
  have lo: "0 < exp t" by simp
  have f: "fact 10 = (3628800::real)" by (simp add: fact_numeral)
  from e s f have "exp (2::real) = 20947 / 2835 + exp t * (1024 / 3628800)" by simp
  with up lo show ?thesis by linarith
qed


lemma logistic_clamp: "max 0 (min 1 (1 / (1 + exp (t::real)))) = 1 / (1 + exp t)"
proof -
  have "0 < exp t" by simp
  then have "0 \<le> 1 / (1 + exp t)" "1 / (1 + exp t) \<le> 1"
    by (simp_all add: add_pos_pos less_imp_le)
  then show ?thesis by simp
qed

lemma pe_absolute: "score_absolute 10 (hd KPI_CONFIGS) = Inr (1 - (10 - 5) / (60 - 5))"
  by (simp add: KPI_CONFIGS_def score_absolute_def py_truediv_def)

lemma pe_relative: "score_relative 10 (PyFloat 20) (hd KPI_CONFIGS) = Inr (1 / (1 + exp (- 4 * (1 / 2))))"
  by (simp add: KPI_CONFIGS_def py_truediv_def math_exp_nonpos one_plus_exp_nonzero logistic_clamp)

lemma logistic_2_bounds:
  "8805 / 10000 < 1 / (1 + exp (- (2::real))) \<and> 1 / (1 + exp (- (2::real))) < 8809 / 10000"
proof -
  have pos: "0 < exp (2::real)" by simp
  have "1 / (1 + exp (- (2::real))) = exp 2 / (exp 2 + 1)"
    using pos by (simp add: exp_minus field_simps)
  moreover have "8805 / 10000 < exp (2::real) / (exp 2 + 1)"
    using exp_2_bounds pos by (simp add: field_simps)
  moreover have "exp (2::real) / (exp 2 + 1) < 8809 / 10000"
    using exp_2_bounds pos by (simp add: field_simps)
  ultimately show ?thesis by simp
qed

lemma pe_relative_rounded: "py_round (1 / (1 + exp (- (2::real)))) 3 = 881 / 1000"
proof -
  let ?y = "1 / (1 + exp (- (2::real)))"
  have "of_int 881 - 1 / 2 < ?y * 10 ^ 3" "?y * 10 ^ 3 < of_int 881 + 1 / 2"
    using logistic_2_bounds by simp_all
  from py_round_near [OF this] show ?thesis by simp
qed

lemma pe_combined_rounded:
  "py_round (2 / 5 * (10 / 11) + 3 / 5 * (1 / (1 + exp (- (2::real))))) 3 = 892 / 1000"
proof -
  define y where "y = 1 / (1 + exp (- (2::real)))"
  have b: "8805 / 10000 < y" "y < 8809 / 10000"
    using logistic_2_bounds unfolding y_def by blast+
  have "of_int 892 - 1 / 2 < (2 / 5 * (10 / 11) + 3 / 5 * y) * 10 ^ 3"
    "(2 / 5 * (10 / 11) + 3 / 5 * y) * 10 ^ 3 < of_int 892 + 1 / 2"
    using b by simp_all
  from py_round_near [OF this] show ?thesis
    unfolding y_def by simp
qed

lemma scenario_returns: "\<exists>r. calculate_rating scenario_stock scenario_sector (2 / 5) (3 / 5) = Inr r"
  by (simp add: calculate_rating_def KPI_CONFIGS_def scenario_stock_def scenario_sector_def init_acc_def
      dict_get_def score_absolute_def py_truediv_def math_exp_nonpos one_plus_exp_nonzero
      finish_rating_def Let_def)


lemma pe_absolute_rounded: "py_round (1 - (10 - 5) / (60 - 5)) 3 = 909 / 1000"
  by (simp add: py_round_def round_half_even_def Let_def)

lemma scenario_entry:
  "entry_of (calculate_rating scenario_stock scenario_sector (2 / 5) (3 / 5)) ''trailingPE''
     = Some \<lparr>absolute = Some (909 / 1000), relative = Some (881 / 1000),
             combined = Some (892 / 1000)\<rparr>"
proof -
  from scenario_returns obtain r where r: "calculate_rating scenario_stock scenario_sector (2 / 5) (3 / 5) = Inr r"
    by blast
  then obtain acc where
    loop: "rating_loop KPI_CONFIGS scenario_stock scenario_sector (2 / 5) (3 / 5) init_acc = Inr acc"
    and ks: "kpi_scores r = kpi_scores_acc acc"
    by (rule calculate_rating_loop)
  have c: "hd KPI_CONFIGS \<in> set KPI_CONFIGS" and k: "key (hd KPI_CONFIGS) = ''trailingPE''"
    by (simp_all add: KPI_CONFIGS_def)
  have v: "dict_get scenario_stock ''trailingPE'' = PyFloat 10"
    and a: "dict_get scenario_sector ''trailingPE'' = PyFloat 20"
    by (simp_all add: scenario_stock_def scenario_sector_def dict_get_def)
  from rating_loop_entry [OF loop c KPI_keys_distinct] obtain x y where
    x: "score_absolute 10 (hd KPI_CONFIGS) = Inr x"
    and y: "score_relative 10 (PyFloat 20) (hd KPI_CONFIGS) = Inr y"
    and e: "kpi_scores_acc acc ''trailingPE''
      = Some \<lparr>absolute = Some (py_round x 3), relative = Some (py_round y 3),
              combined = Some (py_round (2 / 5 * x + 3 / 5 * y) 3)\<rparr>"
    unfolding k v a by auto
  from x pe_absolute have x': "x = 1 - (10 - 5) / (60 - 5)" by (simp only: sum.inject)
  from y pe_relative have y': "y = 1 / (1 + exp (- 4 * (1 / 2)))" by (simp only: sum.inject)
  have "py_round x 3 = 909 / 1000"
    unfolding x' by (rule pe_absolute_rounded)
  moreover have "py_round y 3 = 881 / 1000"
    unfolding y' using pe_relative_rounded by simp
  moreover have "py_round (2 / 5 * x + 3 / 5 * y) 3 = 892 / 1000"
    unfolding x' y' using pe_combined_rounded by simp
  ultimately show ?thesis
    using r ks e by (simp add: entry_of_def)
qed

text \<open>
  Claim C1, as the code has it. In the end-to-end scenario the trailing P/E of 10 against a
  sector average of 20 deviates by \<open>(10 - 20) / 20 = -0.5\<close>, which lower-is-better negates
  to \<open>+0.5\<close>: the absolute score is \<open>1 - (10 - 5) / (60 - 5)\<close>, the relative score is
  \<open>1 / (1 + exp (-4 \<cdot> 0.5))\<close>, and the entry of the score table is 0.909, 0.881 and 0.892.
\<close>

theorem end_to_end_trailingPE:
  "score_absolute 10 (hd KPI_CONFIGS) = Inr (1 - (10 - 5) / (60 - 5)) \<and>
   score_relative 10 (PyFloat 20) (hd KPI_CONFIGS) = Inr (1 / (1 + exp (- 4 * (1 / 2)))) \<and>
   entry_of (calculate_rating scenario_stock scenario_sector (2 / 5) (3 / 5)) ''trailingPE''
     = Some \<lparr>absolute = Some (909 / 1000), relative = Some (881 / 1000),
             combined = Some (892 / 1000)\<rparr>"
  using pe_absolute pe_relative scenario_entry by blast

text \<open>
  Claim C1, as stated, fails: the relative score is not \<open>1 / (1 + exp (-4 \<cdot> 1.0))\<close>, and
  the entry is not 0.909, 0.982 and 0.953.
\<close>

theorem end_to_end_trailingPE_counterexample:
  "score_relative 10 (PyFloat 20) (hd KPI_CONFIGS) \<noteq> Inr (1 / (1 + exp (- 4 * 1))) \<and>
   entry_of (calculate_rating scenario_stock scenario_sector (2 / 5) (3 / 5)) ''trailingPE''
     \<noteq> Some \<lparr>absolute = Some (909 / 1000), relative = Some (982 / 1000),
             combined = Some (953 / 1000)\<rparr>"
proof -
  have "exp (- (2::real)) \<noteq> exp (- 4)" by simp
  then have "1 / (1 + exp (- 4 * (1 / 2 :: real))) \<noteq> 1 / (1 + exp (- 4 * 1))"
    by (simp add: one_plus_exp_nonzero)
  with pe_relative scenario_entry show ?thesis by simp
qed


section \<open>When the rating returns\<close>

text \<open>
  \<^verbatim>\<open>calculate_rating\<close> returns a result whenever no catalog key holds a string and
  no present value is further than 161 sector averages from a non-zero sector average.
\<close>

lemma exp_644_in_range: "exp (644::real) \<le> DBL_MAX"
proof -
  have "exp (644::real) = exp 1 ^ 644" by (simp flip: exp_of_nat_mult)
  also have "\<dots> \<le> 3 ^ 644" using exp_le by (intro power_mono) simp_all
  also have "(3::real) ^ 644 \<le> 2 ^ 1023" by simp
  also have "(2::real) ^ 1023 \<le> DBL_MAX"
  proof -
    have "(2::real) ^ 1023 = 2 ^ 52 * 2 ^ 971" by (simp flip: power_add)
    also have "\<dots> \<le> (2 ^ 53 - 1) * 2 ^ 971" by (intro mult_right_mono) simp_all
    finally show ?thesis by (simp add: DBL_MAX_def)
  qed
  finally show ?thesis .
qed

lemma math_exp_returns:
  assumes "x \<le> 644"
  shows "math_exp x = Inr (exp x)"
proof -
  have "exp x \<le> exp 644" using assms by simp
  with exp_644_in_range have "\<not> DBL_MAX < exp x" by linarith
  then show ?thesis by (simp add: math_exp_def)
qed

lemma score_relative_returns:
  assumes "\<not> is_str avg" and "\<forall>m. avg = PyFloat m \<longrightarrow> \<bar>v - m\<bar> \<le> 161 * \<bar>m\<bar>"
  shows "\<exists>y. score_relative v avg cfg = Inr y"
proof (cases avg)
  case PyNone
  then have "score_relative v avg cfg = Inr (1 / 2)" by simp
  then show ?thesis ..
next
  case (PyStr t)
  with assms(1) show ?thesis by simp
next
  case (PyFloat m)
  show ?thesis
  proof (cases "m = 0")
    case True
    with PyFloat have "score_relative v avg cfg = Inr (1 / 2)" by simp
    then show ?thesis ..
  next
    case False
    define p where "p = (v - m) / \<bar>m\<bar>"
    from assms(2) PyFloat have "\<bar>v - m\<bar> \<le> 161 * \<bar>m\<bar>" by simp
    then have "\<bar>p\<bar> \<le> 161"
      using False by (simp add: p_def field_simps)
    then have "- 4 * p \<le> 644" "- 4 * (- p) \<le> 644" by linarith+
    then have "math_exp (- 4 * p) = Inr (exp (- 4 * p))"
      "math_exp (- 4 * (- p)) = Inr (exp (- 4 * (- p)))"
      by (simp_all add: math_exp_returns)
    with PyFloat False show ?thesis
      by (simp add: py_truediv_def Let_def one_plus_exp_nonzero flip: p_def)
  qed
qed

lemma rating_loop_returns:
  assumes "\<forall>c\<in>set cfgs. \<not> is_str (dict_get s (key c)) \<and> \<not> is_str (dict_get a (key c))"
    and "\<forall>c\<in>set cfgs. \<forall>v m. dict_get s (key c) = PyFloat v \<and> dict_get a (key c) = PyFloat m
           \<longrightarrow> \<bar>v - m\<bar> \<le> 161 * \<bar>m\<bar>"
  shows "\<exists>acc'. rating_loop cfgs s a aw rw acc = Inr acc'"
  using assms
proof (induction cfgs arbitrary: acc)
  case Nil
  show ?case by simp
next
  case (Cons c cfgs)
  have IH: "\<exists>acc'. rating_loop cfgs s a aw rw acc1 = Inr acc'" for acc1
    using Cons.IH Cons.prems by simp
  show ?case
  proof (cases "dict_get s (key c)")
    case PyNone
    with IH show ?thesis by simp
  next
    case (PyStr t)
    with Cons.prems(1) show ?thesis by simp
  next
    case (PyFloat v)
    obtain x where x: "score_absolute v c = Inr x"
      using score_absolute_range by blast
    have "\<not> is_str (dict_get a (key c))" using Cons.prems(1) by simp
    moreover have "\<forall>m. dict_get a (key c) = PyFloat m \<longrightarrow> \<bar>v - m\<bar> \<le> 161 * \<bar>m\<bar>"
      using Cons.prems(2) PyFloat by simp
    ultimately obtain y where y: "score_relative v (dict_get a (key c)) c = Inr y"
      using score_relative_returns by blast
    from PyFloat x y IH show ?thesis
      by (simp add: Let_def rel_if)
  qed
qed

lemma finish_rating_returns: "\<exists>r. finish_rating aw rw acc = Inr r"
  by (simp add: finish_rating_def py_truediv_def)

lemma calculate_rating_returns:
  assumes "kpis_typed s" "kpis_typed a"
    and "\<forall>c\<in>set KPI_CONFIGS. \<forall>v m. dict_get s (key c) = PyFloat v \<and> dict_get a (key c) = PyFloat m
           \<longrightarrow> \<bar>v - m\<bar> \<le> 161 * \<bar>m\<bar>"
  shows "\<exists>r. calculate_rating s a aw rw = Inr r"
proof -
  have "\<forall>c\<in>set KPI_CONFIGS. \<not> is_str (dict_get s (key c)) \<and> \<not> is_str (dict_get a (key c))"
    using assms(1,2) by (simp add: kpis_typed_def get_kpi_keys_def)
  from rating_loop_returns [OF this assms(3)] obtain acc where
    "rating_loop KPI_CONFIGS s a aw rw init_acc = Inr acc" by blast
  with finish_rating_returns [of aw rw acc] show ?thesis
    by (simp add: calculate_rating_def)
qed


section \<open>A single present KPI in double arithmetic\<close>

subsection \<open>Rounding to a double\<close>



subsection \<open>The loop over the present KPIs\<close>







subsection \<open>The roundings of one rating\<close>











































end
